theory Spec2Isabelle
  imports Complex_Main "HOL-Library.Sublist"
begin

section \<open>The synthesis request pipeline of \<^verbatim>\<open>webui.py\<close>\<close>

text \<open>
  The module keeps one global, \<^verbatim>\<open>tts_model\<close>, and three functions:
  \<^verbatim>\<open>get_voice_styles\<close>, \<^verbatim>\<open>load_model\<close> and \<^verbatim>\<open>generate_audio\<close>. The engine
  loader, the style decoder and the engine call come from the module \<^verbatim>\<open>helper\<close>,
  and the file system from \<^verbatim>\<open>os\<close> and \<^verbatim>\<open>glob\<close>: they are parameters of the
  model (the record \<open>env\<close>). Whatever the module does beyond returning a value
  (assigning the global, printing, calling a collaborator, asking the file system) is
  written to an explicit state.
\<close>

subsection \<open>Strings, paths and the library functions on them\<close>

text \<open>
  Paths, file names and messages are strings of bytes. The request's text is only
  stripped and handed to the engine; since \<^verbatim>\<open>str.strip\<close> looks at Unicode white
  space, the text is kept as the list of its code points.
\<close>

type_synonym path = string
type_synonym unicode = "nat list"

definition ONNX_DIR :: path where
  "ONNX_DIR = ''assets/onnx''"

definition VOICE_STYLES_DIR :: path where
  "VOICE_STYLES_DIR = ''assets/voice_styles''"

text \<open>
  \<^verbatim>\<open>str.isspace\<close> for one code point: the characters of bidirectional type WS, B or S
  and of category Zs.
\<close>

definition py_isspace :: "nat \<Rightarrow> bool" where
  "py_isspace c \<longleftrightarrow>
     (9 \<le> c \<and> c \<le> 13) \<or> (28 \<le> c \<and> c \<le> 32) \<or> c = 133 \<or> c = 160 \<or> c = 5760 \<or>
     (8192 \<le> c \<and> c \<le> 8202) \<or> c = 8232 \<or> c = 8233 \<or> c = 8239 \<or> c = 8287 \<or>
     c = 12288"

text \<open>\<^verbatim>\<open>text.strip()\<close>: leading and trailing white space removed.\<close>

definition strip :: "unicode \<Rightarrow> unicode" where
  "strip t = rev (dropWhile py_isspace (rev (dropWhile py_isspace t)))"

text \<open>
  \<^verbatim>\<open>os.path.join(a, b)\<close> of \<^verbatim>\<open>posixpath\<close>: a component that starts with the
  separator replaces what was joined so far; otherwise a separator is put between the
  two unless the first is empty or ends with one.
\<close>

definition os_path_join :: "path \<Rightarrow> path \<Rightarrow> path" where
  "os_path_join a b =
     (if prefix ''/'' b then b
      else if a = [] \<or> suffix ''/'' a then a @ b
      else a @ ''/'' @ b)"

text \<open>\<^verbatim>\<open>os.path.isabs\<close> and \<^verbatim>\<open>os.path.basename\<close> of \<^verbatim>\<open>posixpath\<close>.\<close>

definition os_path_isabs :: "path \<Rightarrow> bool" where
  "os_path_isabs p \<longleftrightarrow> prefix ''/'' p"

definition os_path_basename :: "path \<Rightarrow> path" where
  "os_path_basename p = rev (takeWhile (\<lambda>c. c \<noteq> CHR ''/'') (rev p))"

subsection \<open>Exceptions\<close>

text \<open>
  \<^verbatim>\<open>load_model\<close> raises \<^verbatim>\<open>FileNotFoundError\<close>; the collaborators may raise
  anything. The handler of \<^verbatim>\<open>generate_audio\<close> is \<^verbatim>\<open>except Exception\<close>, so
  what matters of an exception is whether its class derives from \<^verbatim>\<open>Exception\<close>
  (\<^verbatim>\<open>KeyboardInterrupt\<close>, \<^verbatim>\<open>SystemExit\<close> and \<^verbatim>\<open>GeneratorExit\<close> do not) and
  what \<^verbatim>\<open>str(e)\<close> is.
\<close>

datatype py_exception =
    FileNotFoundError string
  | OtherException string
  | NonException string

fun is_Exception :: "py_exception \<Rightarrow> bool" where
  "is_Exception (FileNotFoundError _) = True"
| "is_Exception (OtherException _) = True"
| "is_Exception (NonException _) = False"

fun str_of :: "py_exception \<Rightarrow> string" where
  "str_of (FileNotFoundError m) = m"
| "str_of (OtherException m) = m"
| "str_of (NonException m) = m"

subsection \<open>The environment and the state\<close>

text \<open>
  The engine handle \<open>'m\<close> and the decoded style \<open>'st\<close> are opaque. The engine
  returns a two-dimensional array of samples and a one-dimensional array of
  per-segment durations; a finite float is modelled by the rational it denotes.

  The durations are summed and the sum is formatted, so for them the values that are
  no rational are kept too: a floating-point number is a finite one (the rational it
  denotes, zero being the positive zero), the negative zero, an infinity, or a NaN.
\<close>

datatype pyfloat = Finite rat | NegZero | PosInf | NegInf | NaN

type_synonym wav = "rat list list"
type_synonym duration = "pyfloat list"

text \<open>
  \<^verbatim>\<open>duration.sum()\<close> is a method of the array the engine returns. The module fixes
  neither the element type of that array nor the order in which its elements are
  added, and a floating-point sum depends on both: it is not the exact sum of the
  values. So the method is a collaborator like the engine itself, the field
  \<open>array_sum\<close>, which gives the floating-point number that the array computes.
\<close>

record ('m, 'st) env =
  path_exists :: "path \<Rightarrow> bool"
  listdir :: "path \<Rightarrow> string list"
  load_text_to_speech :: "path \<Rightarrow> bool \<Rightarrow> py_exception + 'm"
  load_voice_style :: "path list \<Rightarrow> py_exception + 'st"
  call_model :: "'m \<Rightarrow> unicode \<Rightarrow> 'st \<Rightarrow> int \<Rightarrow> rat \<Rightarrow> py_exception + (wav \<times> duration)"
  array_sum :: "duration \<Rightarrow> pyfloat"
  sample_rate :: "'m \<Rightarrow> int"

text \<open>
  What a call does to the world, in order: file-system queries, lines printed on the
  console, the trace printed by \<^verbatim>\<open>traceback.print_exc()\<close>, and the calls of the
  three collaborators.
\<close>

datatype ('m, 'st) event =
    Stat path
  | Print string
  | Traceback py_exception
  | Construct path bool
  | DecodeStyle "path list"
  | Invoke 'm unicode 'st int rat

record ('m, 'st) state =
  tts_model :: "'m option"
  trace :: "('m, 'st) event list"

definition initial_state :: "('m, 'st) state" where
  "initial_state = \<lparr>tts_model = None, trace = []\<rparr>"

definition emit :: "('m, 'st) event \<Rightarrow> ('m, 'st) state \<Rightarrow> ('m, 'st) state" where
  "emit ev s = s\<lparr>trace := trace s @ [ev]\<rparr>"

fun is_Construct :: "('m, 'st) event \<Rightarrow> bool" where
  "is_Construct (Construct _ _) = True"
| "is_Construct _ = False"

fun is_Invoke :: "('m, 'st) event \<Rightarrow> bool" where
  "is_Invoke (Invoke _ _ _ _ _) = True"
| "is_Invoke _ = False"

fun is_DecodeStyle :: "('m, 'st) event \<Rightarrow> bool" where
  "is_DecodeStyle (DecodeStyle _) = True"
| "is_DecodeStyle _ = False"

definition constructions :: "('m, 'st) state \<Rightarrow> nat" where
  "constructions s = length (filter is_Construct (trace s))"

text \<open>The paths an event hands to the file system or to a collaborator.\<close>

fun paths_of :: "('m, 'st) event \<Rightarrow> path list" where
  "paths_of (Stat p) = [p]"
| "paths_of (Construct p _) = [p]"
| "paths_of (DecodeStyle ps) = ps"
| "paths_of _ = []"

subsection \<open>\<^verbatim>\<open>get_voice_styles\<close>\<close>

text \<open>
  \<^verbatim>\<open>glob.glob(os.path.join(d, "*" + sfx))\<close> for a directory name \<open>d\<close> without
  wildcard: the entries of \<open>d\<close> (none when it cannot be listed), without those whose
  name starts with a dot (the pattern does not), filtered by \<^verbatim>\<open>fnmatch\<close>, each
  joined to \<open>d\<close>.
\<close>

definition ishidden :: "string \<Rightarrow> bool" where
  "ishidden n \<longleftrightarrow> prefix ''.'' n"

definition glob_star :: "('m, 'st) env \<Rightarrow> path \<Rightarrow> string \<Rightarrow> path list" where
  "glob_star env d sfx =
     map (os_path_join d) (filter (\<lambda>n. \<not> ishidden n \<and> suffix sfx n) (listdir env d))"

definition get_voice_styles :: "('m, 'st) env \<Rightarrow> string list" where
  "get_voice_styles env =
     (if \<not> path_exists env VOICE_STYLES_DIR then []
      else map os_path_basename (glob_star env VOICE_STYLES_DIR ''.json''))"

subsection \<open>\<^verbatim>\<open>load_model\<close>\<close>

definition missing_onnx_message :: string where
  "missing_onnx_message =
     ''ONNX directory not found at '' @ [CHR 0x27] @ ONNX_DIR @ [CHR 0x27] @
     ''. Please ensure assets are correctly linked.''"

definition load_model ::
  "('m, 'st) env \<Rightarrow> ('m, 'st) state \<Rightarrow> (py_exception + 'm) \<times> ('m, 'st) state" where
  "load_model env s =
     (case tts_model s of
        Some m \<Rightarrow> (Inr m, s)
      | None \<Rightarrow>
          let s1 = emit (Stat ONNX_DIR) s in
          if \<not> path_exists env ONNX_DIR
          then (Inl (FileNotFoundError missing_onnx_message), s1)
          else
            let s2 = emit (Print (''Loading TTS model from '' @ ONNX_DIR @ ''...'')) s1;
                s3 = emit (Construct ONNX_DIR False) s2
            in (case load_text_to_speech env ONNX_DIR False of
                  Inl e \<Rightarrow> (Inl e, s3)
                | Inr m \<Rightarrow>
                    (Inr m, emit (Print ''Model loaded successfully.'')
                                 (s3\<lparr>tts_model := Some m\<rparr>))))"

subsection \<open>The status line\<close>

text \<open>
  \<^verbatim>\<open>f"{x:.2f}"\<close> for a floating-point \<open>x\<close>. A finite value gives the sign, the
  integer part, a point and two digits: the value the float denotes, rounded to the
  nearest hundredth, a tie to the even one. The negative zero keeps its sign; an
  infinity and a NaN give their names, the NaN without a sign.
\<close>

definition digit :: "nat \<Rightarrow> char" where
  "digit d = ''0123456789'' ! d"

fun show_nat :: "nat \<Rightarrow> string" where
  "show_nat n = (if n < 10 then [digit n] else show_nat (n div 10) @ [digit (n mod 10)])"

declare show_nat.simps [simp del]

definition round_half_even :: "rat \<Rightarrow> int" where
  "round_half_even x =
     (let f = \<lfloor>x\<rfloor>; d = x - of_int f
      in if d < 1 / 2 then f
         else if 1 / 2 < d then f + 1
         else if even f then f else f + 1)"

definition fixed_2f :: "rat \<Rightarrow> string" where
  "fixed_2f x =
     (let h = nat (round_half_even (\<bar>x\<bar> * 100))
      in (if x < 0 then ''-'' else '''') @ show_nat (h div 100) @ ''.'' @
         [digit (h mod 100 div 10), digit (h mod 10)])"

fun format_2f :: "pyfloat \<Rightarrow> string" where
  "format_2f (Finite x) = fixed_2f x"
| "format_2f NegZero = ''-0.00''"
| "format_2f PosInf = ''inf''"
| "format_2f NegInf = ''-inf''"
| "format_2f NaN = ''nan''"

text \<open>The status line of a success, from the value of \<^verbatim>\<open>duration.sum()\<close>.\<close>

definition success_message :: "pyfloat \<Rightarrow> string" where
  "success_message x =
     ''Generated successfully. Duration: '' @ format_2f x @ ''s''"

subsection \<open>\<^verbatim>\<open>generate_audio\<close>\<close>

text \<open>
  The result is the pair the function returns: the audio (the sample rate and the
  flattened samples) or \<^verbatim>\<open>None\<close>, and the status line. The style name is
  \<^verbatim>\<open>None\<close> when nothing is selected.
\<close>

type_synonym audio = "int \<times> rat list"
type_synonym outcome = "audio option \<times> string"

text \<open>The body of the \<^verbatim>\<open>try\<close>; \<open>Inl\<close> is an exception raised in it.\<close>

definition generate_audio_body ::
  "('m, 'st) env \<Rightarrow> ('m, 'st) state \<Rightarrow> unicode \<Rightarrow> string option \<Rightarrow> rat \<Rightarrow> int \<Rightarrow>
   (py_exception + outcome) \<times> ('m, 'st) state" where
  "generate_audio_body env s text voice_style_name speed total_steps =
     (if strip text = [] then (Inr (None, ''Please enter some text.''), s)
      else case voice_style_name of
        None \<Rightarrow> (Inr (None, ''Please select a voice style.''), s)
      | Some name \<Rightarrow>
          if name = [] then (Inr (None, ''Please select a voice style.''), s)
          else (case load_model env s of
            (Inl e, s1) \<Rightarrow> (Inl e, s1)
          | (Inr model, s1) \<Rightarrow>
              let voice_style_path = os_path_join VOICE_STYLES_DIR name;
                  s2 = emit (Stat voice_style_path) s1
              in if \<not> path_exists env voice_style_path
                 then (Inr (None, ''Voice style file not found: '' @ voice_style_path), s2)
                 else
                   let s3 = emit (DecodeStyle [voice_style_path]) s2
                   in (case load_voice_style env [voice_style_path] of
                     Inl e \<Rightarrow> (Inl e, s3)
                   | Inr style \<Rightarrow>
                       let s4 = emit (Invoke model text style total_steps speed) s3
                       in (case call_model env model text style total_steps speed of
                         Inl e \<Rightarrow> (Inl e, s4)
                       | Inr (wav, duration) \<Rightarrow>
                           (Inr (Some (sample_rate env model, concat wav),
                                 success_message (array_sum env duration)), s4)))))"

text \<open>
  The handler: an exception deriving from \<^verbatim>\<open>Exception\<close> has its trace printed
  and becomes a status line; any other one leaves the function.
\<close>

definition generate_audio ::
  "('m, 'st) env \<Rightarrow> ('m, 'st) state \<Rightarrow> unicode \<Rightarrow> string option \<Rightarrow> rat \<Rightarrow> int \<Rightarrow>
   (py_exception + outcome) \<times> ('m, 'st) state" where
  "generate_audio env s text voice_style_name speed total_steps =
     (case generate_audio_body env s text voice_style_name speed total_steps of
        (Inr r, s') \<Rightarrow> (Inr r, s')
      | (Inl e, s') \<Rightarrow>
          if is_Exception e
          then (Inr (None, ''Error: '' @ str_of e), emit (Traceback e) s')
          else (Inl e, s'))"

subsection \<open>Sequences of calls\<close>

text \<open>
  The calls come one after the other, each in the world as it is then: a list of
  environments for \<^verbatim>\<open>load_model\<close>, a list of environments and arguments for
  \<^verbatim>\<open>generate_audio\<close>.
\<close>

fun load_model_calls ::
  "('m, 'st) env list \<Rightarrow> ('m, 'st) state \<Rightarrow> (py_exception + 'm) list \<times> ('m, 'st) state" where
  "load_model_calls [] s = ([], s)"
| "load_model_calls (env # envs) s =
     (let (r, s1) = load_model env s;
          (rs, s2) = load_model_calls envs s1
      in (r # rs, s2))"

type_synonym ('m, 'st) request = "('m, 'st) env \<times> unicode \<times> string option \<times> rat \<times> int"

fun generate_audio_calls ::
  "('m, 'st) request list \<Rightarrow> ('m, 'st) state \<Rightarrow> ('m, 'st) state" where
  "generate_audio_calls [] s = s"
| "generate_audio_calls ((env, text, voice_style_name, speed, total_steps) # rs) s =
     generate_audio_calls rs
       (snd (generate_audio env s text voice_style_name speed total_steps))"

text \<open>The events a call has added to the trace of the state it started from.\<close>

definition new_events :: "('m, 'st) state \<Rightarrow> ('m, 'st) state \<Rightarrow> ('m, 'st) event list" where
  "new_events s s' = drop (length (trace s)) (trace s')"

text \<open>An event that is no engine call, or a call of the engine \<open>m\<close>.\<close>

fun invokes_only :: "'m \<Rightarrow> ('m, 'st) event \<Rightarrow> bool" where
  "invokes_only m (Invoke m' _ _ _ _) = (m' = m)"
| "invokes_only m _ = True"

subsection \<open>Example worlds\<close>

text \<open>
  The per-segment durations of the examples are the double-precision numbers written
  \<^verbatim>\<open>1.234\<close> and \<^verbatim>\<open>2.184\<close>, and their sum is the double-precision number that the
  addition of the two gives (written \<^verbatim>\<open>3.418\<close>); for these two the addition happens
  to be exact.
\<close>

definition example_durations :: duration where
  "example_durations =
     [Finite (694680242521899 / 562949953421312), Finite (2458965396544291 / 1125899906842624)]"

definition example_sum :: pyfloat where
  "example_sum = Finite (3848325881588089 / 1125899906842624)"

text \<open>
  A deployment with the engine directory, three entries in the style directory, and
  collaborators that succeed; a machine where nothing is installed; the first
  deployment with a loader that is interrupted, or that fails; and the first
  deployment with a file in the engine directory, which the file system also reaches
  through the style directory and its parent.
\<close>

definition example_env :: "(nat, nat) env" where
  "example_env =
     \<lparr>path_exists = (\<lambda>p. p \<in> set [''assets/onnx'', ''assets/voice_styles'',
          ''assets/voice_styles/a.json'', ''assets/voice_styles/.hidden.json'',
          ''assets/voice_styles/notes.txt'']),
      listdir = (\<lambda>d. if d = ''assets/voice_styles''
                      then [''a.json'', ''.hidden.json'', ''notes.txt''] else []),
      load_text_to_speech = (\<lambda>d gpu. Inr 7),
      load_voice_style = (\<lambda>ps. Inr 1),
      call_model = (\<lambda>m t st n r. Inr ([[1 / 10, - 1 / 5, 3 / 10]], example_durations)),
      array_sum = (\<lambda>d. if d = example_durations then example_sum else NaN),
      sample_rate = (\<lambda>m. 44100)\<rparr>"

definition empty_env :: "(nat, nat) env" where
  "empty_env =
     \<lparr>path_exists = (\<lambda>p. False),
      listdir = (\<lambda>d. []),
      load_text_to_speech = (\<lambda>d gpu. Inl (OtherException ''no such model'')),
      load_voice_style = (\<lambda>ps. Inl (OtherException ''no such style'')),
      call_model = (\<lambda>m t st n r. Inl (OtherException ''no engine'')),
      array_sum = (\<lambda>d. NaN),
      sample_rate = (\<lambda>m. 0)\<rparr>"

definition interrupted_env :: "(nat, nat) env" where
  "interrupted_env = example_env\<lparr>load_text_to_speech :=
     (\<lambda>d gpu. Inl (NonException ''KeyboardInterrupt''))\<rparr>"

definition broken_env :: "(nat, nat) env" where
  "broken_env = example_env\<lparr>load_text_to_speech :=
     (\<lambda>d gpu. Inl (OtherException ''model file is corrupt''))\<rparr>"

definition escape_env :: "(nat, nat) env" where
  "escape_env = example_env\<lparr>path_exists :=
     (\<lambda>p. path_exists example_env p \<or>
          p \<in> set [''assets/onnx/tts.json'', ''assets/voice_styles/../onnx/tts.json''])\<rparr>"

definition example_text :: unicode where
  "example_text = [72, 101, 108, 108, 111]"

text \<open>The state after the engine has been loaded in the first deployment.\<close>

definition loaded_state :: "(nat, nat) state" where
  "loaded_state = snd (load_model example_env initial_state)"

section \<open>Properties\<close>

subsection \<open>Auxiliary facts\<close>

lemmas world_defs =
  example_env_def empty_env_def interrupted_env_def broken_env_def example_text_def
  initial_state_def loaded_state_def
  ONNX_DIR_def VOICE_STYLES_DIR_def missing_onnx_message_def

lemmas call_defs =
  generate_audio_def generate_audio_body_def load_model_def emit_def Let_def

lemma dropWhile_all: "(\<forall>x\<in>set (dropWhile P t). P x) \<longleftrightarrow> (\<forall>x\<in>set t. P x)"
  by (induction t) auto

lemma strip_empty_iff: "strip t = [] \<longleftrightarrow> (\<forall>c\<in>set t. py_isspace c)"
  by (simp add: strip_def dropWhile_eq_Nil_conv dropWhile_all)

lemma load_model_warm: "tts_model s = Some m \<Longrightarrow> load_model env s = (Inr m, s)"
  by (simp add: load_model_def)

lemma load_model_calls_warm:
  "tts_model s = Some m \<Longrightarrow> load_model_calls envs s = (replicate (length envs) (Inr m), s)"
  by (induction envs) (simp_all add: load_model_warm)

lemma load_model_cold_success:
  assumes "tts_model s = None" "path_exists env ONNX_DIR"
    "load_text_to_speech env ONNX_DIR False = Inr m"
  shows "load_model env s =
    (Inr m, s\<lparr>tts_model := Some m,
               trace := trace s @ [Stat ONNX_DIR, Print (''Loading TTS model from '' @ ONNX_DIR @ ''...''),
                  Construct ONNX_DIR False, Print ''Model loaded successfully.'']\<rparr>)"
  using assms by (simp add: load_model_def emit_def Let_def)

subsection \<open>Blank text\<close>

text \<open>
  C4. A request whose text is empty or holds white space only gets the status
  \<^verbatim>\<open>Please enter some text.\<close> and no audio, whatever the style name, the file system
  and the collaborators are; the state is left as it was, so nothing was loaded, looked
  up or invoked.
\<close>

theorem blank_text_rejected:
  assumes "\<forall>c\<in>set text. py_isspace c"
  shows "generate_audio env s text voice_style_name speed total_steps =
           (Inr (None, ''Please enter some text.''), s)"
  using assms by (simp add: generate_audio_def generate_audio_body_def strip_empty_iff)

theorem blank_text_rejected_witness:
  "list_all py_isspace [32, 9, 10, 12288] \<and>
   generate_audio example_env initial_state [32, 9, 10, 12288] (Some ''a.json'') (21 / 20) 5 =
     (Inr (None, ''Please enter some text.''), initial_state)"
proof -
  have h: "\<forall>c\<in>set [32, 9, 10, 12288]. py_isspace c"
    by (simp add: py_isspace_def)
  from h have l: "list_all py_isspace [32, 9, 10, 12288]"
    by (simp add: list_all_iff)
  from l blank_text_rejected [OF h, of example_env initial_state "Some ''a.json''" "21 / 20" 5]
  show ?thesis
    by blast
qed

subsection \<open>The engine directory is missing\<close>

text \<open>
  C1, as amended. When no handle is stored and the engine directory is absent,
  \<^verbatim>\<open>load_model\<close> raises \<^verbatim>\<open>FileNotFoundError\<close> with a message that holds the
  configured path, and stores no handle. Because no handle is stored, the next call
  asks the file system again: it raises the same error while the directory is absent,
  and returns what the engine loader returns once the directory is there.
\<close>

theorem load_model_missing_dir:
  assumes "tts_model s = None" and "\<not> path_exists env ONNX_DIR"
  shows "load_model env s =
           (Inl (FileNotFoundError (''ONNX directory not found at '' @ [CHR 0x27] @ ONNX_DIR @
                   [CHR 0x27] @ ''. Please ensure assets are correctly linked.'')),
            emit (Stat ONNX_DIR) s) \<and>
         tts_model (snd (load_model env s)) = None \<and>
         fst (load_model env' (snd (load_model env s))) =
           (if path_exists env' ONNX_DIR then load_text_to_speech env' ONNX_DIR False
            else Inl (FileNotFoundError missing_onnx_message))"
  using assms
  by (simp add: load_model_def emit_def Let_def missing_onnx_message_def split: sum.splits)

theorem load_model_missing_dir_witness:
  "tts_model (initial_state :: (nat, nat) state) = None \<and> \<not> path_exists empty_env ONNX_DIR \<and>
   tts_model (snd (load_model empty_env initial_state)) = None \<and>
   fst (load_model example_env (snd (load_model empty_env initial_state))) = Inr 7"
proof -
  have h1: "tts_model (initial_state :: (nat, nat) state) = None"
    by (simp add: initial_state_def)
  have h2: "\<not> path_exists empty_env ONNX_DIR"
    by (simp add: empty_env_def)
  have h3: "path_exists example_env ONNX_DIR"
    by (simp add: example_env_def ONNX_DIR_def)
  have h4: "load_text_to_speech example_env ONNX_DIR False = Inr 7"
    by (simp add: example_env_def)
  note t = load_model_missing_dir [OF h1 h2, of example_env]
  from t have a: "tts_model (snd (load_model empty_env initial_state)) = None"
    by blast
  from t [THEN conjunct2, THEN conjunct2] h3 h4
  have b: "fst (load_model example_env (snd (load_model empty_env initial_state))) = Inr 7"
    by simp
  from h1 h2 a b show ?thesis
    by blast
qed

text \<open>
  C1, as stated, fails: after a first call without the directory, a second call with
  the directory in place returns the handle.
\<close>

theorem load_model_retry_counterexample:
  "\<not> path_exists empty_env ONNX_DIR \<and>
   fst (load_model empty_env initial_state) = Inl (FileNotFoundError missing_onnx_message) \<and>
   path_exists example_env ONNX_DIR \<and>
   fst (load_model example_env (snd (load_model empty_env initial_state))) = Inr 7"
  by (simp add: load_model_def emit_def Let_def world_defs)

subsection \<open>One construction\<close>

text \<open>
  C5. Starting without a handle, when the first of \<open>N \<ge> 1\<close> calls of \<^verbatim>\<open>load_model\<close>
  finds the directory and the loader returns a handle, every call returns that handle
  and the loader has been called exactly once, whatever the world looks like at the
  later calls.
\<close>

theorem load_model_constructs_once:
  assumes "tts_model s = None" and "path_exists env ONNX_DIR"
    and "load_text_to_speech env ONNX_DIR False = Inr m"
  shows "fst (load_model_calls (env # envs) s) = replicate (Suc (length envs)) (Inr m) \<and>
         constructions (snd (load_model_calls (env # envs) s)) = Suc (constructions s) \<and>
         tts_model (snd (load_model_calls (env # envs) s)) = Some m"
  by (simp add: load_model_cold_success [OF assms] load_model_calls_warm constructions_def)

theorem load_model_constructs_once_witness:
  "tts_model (initial_state :: (nat, nat) state) = None \<and> path_exists example_env ONNX_DIR \<and>
   load_text_to_speech example_env ONNX_DIR False = Inr 7 \<and>
   fst (load_model_calls [example_env, empty_env, interrupted_env] initial_state) =
     [Inr 7, Inr 7, Inr 7] \<and>
   constructions (snd (load_model_calls [example_env, empty_env, interrupted_env] initial_state)) = 1"
proof -
  have h1: "tts_model (initial_state :: (nat, nat) state) = None"
    by (simp add: initial_state_def)
  have h2: "path_exists example_env ONNX_DIR"
    by (simp add: example_env_def ONNX_DIR_def)
  have h3: "load_text_to_speech example_env ONNX_DIR False = Inr 7"
    by (simp add: example_env_def)
  have c: "constructions (initial_state :: (nat, nat) state) = 0"
    by (simp add: initial_state_def constructions_def)
  show ?thesis
    using h1 h2 h3 c load_model_constructs_once [OF h1 h2 h3, of "[empty_env, interrupted_env]"]
    by (simp add: numeral_eq_Suc)
qed

subsection \<open>Auxiliary facts about \<^verbatim>\<open>generate_audio\<close> and the example worlds\<close>

lemma example_text_nonblank: "strip example_text \<noteq> []"
  by (simp add: strip_def example_text_def py_isspace_def)

lemma example_success_message:
  "success_message example_sum = ''Generated successfully. Duration: 3.42s''"
  unfolding example_sum_def by code_simp

lemma example_listing: "get_voice_styles example_env = [''a.json'']"
  by (simp add: get_voice_styles_def glob_star_def ishidden_def os_path_basename_def
        os_path_join_def example_env_def VOICE_STYLES_DIR_def suffix_def)

lemma load_model_no_invoke:
  "filter is_Invoke (trace (snd (load_model env s))) = filter is_Invoke (trace s)"
  "filter is_DecodeStyle (trace (snd (load_model env s))) = filter is_DecodeStyle (trace s)"
  by (simp_all add: load_model_def emit_def Let_def split: option.splits sum.splits)

lemma generate_audio_not_found:
  assumes "strip text \<noteq> []" and "name \<noteq> []"
    and "fst (load_model env s) = Inr model"
    and "\<not> path_exists env (os_path_join VOICE_STYLES_DIR name)"
  shows "generate_audio env s text (Some name) speed total_steps =
           (Inr (None, ''Voice style file not found: '' @ os_path_join VOICE_STYLES_DIR name),
            emit (Stat (os_path_join VOICE_STYLES_DIR name)) (snd (load_model env s)))"
  using assms
  by (cases "load_model env s") (simp add: generate_audio_def generate_audio_body_def Let_def)

lemma generate_audio_success:
  assumes "strip text \<noteq> []" and "name \<noteq> []"
    and "fst (load_model env s) = Inr model"
    and "path_exists env (os_path_join VOICE_STYLES_DIR name)"
    and "load_voice_style env [os_path_join VOICE_STYLES_DIR name] = Inr style"
    and "call_model env model text style total_steps speed = Inr (wav, duration)"
  shows "generate_audio env s text (Some name) speed total_steps =
           (Inr (Some (sample_rate env model, concat wav),
                 success_message (array_sum env duration)),
            emit (Invoke model text style total_steps speed)
              (emit (DecodeStyle [os_path_join VOICE_STYLES_DIR name])
                 (emit (Stat (os_path_join VOICE_STYLES_DIR name)) (snd (load_model env s)))))"
  using assms
  by (cases "load_model env s") (simp add: generate_audio_def generate_audio_body_def Let_def)

lemma example_load:
  "load_model example_env initial_state =
     (Inr 7, \<lparr>tts_model = Some 7,
               trace = [Stat ''assets/onnx'', Print ''Loading TTS model from assets/onnx...'',
                        Construct ''assets/onnx'' False, Print ''Model loaded successfully.'']\<rparr>)"
  by (simp add: load_model_def emit_def Let_def example_env_def initial_state_def ONNX_DIR_def)

lemma example_paths:
  "os_path_join VOICE_STYLES_DIR ''a.json'' = ''assets/voice_styles/a.json''"
  "os_path_join VOICE_STYLES_DIR ''notes.txt'' = ''assets/voice_styles/notes.txt''"
  "os_path_join VOICE_STYLES_DIR ''missing.json'' = ''assets/voice_styles/missing.json''"
  "os_path_join VOICE_STYLES_DIR ''/tmp/x.json'' = ''/tmp/x.json''"
  by (simp_all add: os_path_join_def VOICE_STYLES_DIR_def suffix_def)

lemma example_exists:
  "path_exists example_env ''assets/voice_styles/a.json''"
  "path_exists example_env ''assets/voice_styles/notes.txt''"
  "\<not> path_exists example_env ''assets/voice_styles/missing.json''"
  by (simp_all add: example_env_def)

lemma example_collaborators:
  "load_voice_style example_env ps = Inr 1"
  "call_model example_env m t st n r = Inr ([[1 / 10, - 1 / 5, 3 / 10]], example_durations)"
  "sample_rate example_env m = 44100"
  "array_sum example_env example_durations = example_sum"
  by (simp_all add: example_env_def)

lemma broken_load:
  "fst (load_model broken_env initial_state) = Inl (OtherException ''model file is corrupt'')"
  by (simp add: load_model_def emit_def Let_def broken_env_def example_env_def initial_state_def
        ONNX_DIR_def)

lemma interrupted_load:
  "fst (load_model interrupted_env initial_state) = Inl (NonException ''KeyboardInterrupt'')"
  by (simp add: load_model_def emit_def Let_def interrupted_env_def example_env_def
        initial_state_def ONNX_DIR_def)

lemma loaded_state_eq:
  "loaded_state =
     \<lparr>tts_model = Some 7,
       trace = [Stat ''assets/onnx'', Print ''Loading TTS model from assets/onnx...'',
                Construct ''assets/onnx'' False, Print ''Model loaded successfully.'']\<rparr>"
  by (simp add: loaded_state_def example_load)

lemma no_Exception_leaves:
  "fst (generate_audio env s text name speed steps) = Inl e \<Longrightarrow> \<not> is_Exception e"
  by (auto simp: generate_audio_def split: prod.splits sum.splits if_splits)

lemma handler_catches:
  "generate_audio_body env s text name speed steps = (Inl e, s1) \<Longrightarrow> is_Exception e \<Longrightarrow>
   generate_audio env s text name speed steps =
     (Inr (None, ''Error: '' @ str_of e), emit (Traceback e) s1)"
  by (simp add: generate_audio_def)

lemma body_load_raises:
  "strip text \<noteq> [] \<Longrightarrow> name \<noteq> [] \<Longrightarrow> fst (load_model env s) = Inl e \<Longrightarrow>
   generate_audio_body env s text (Some name) speed steps = (Inl e, snd (load_model env s))"
  by (cases "load_model env s") (simp add: generate_audio_body_def)

lemma body_decode_raises:
  "strip text \<noteq> [] \<Longrightarrow> name \<noteq> [] \<Longrightarrow> fst (load_model env s) = Inr model \<Longrightarrow>
   path_exists env (os_path_join VOICE_STYLES_DIR name) \<Longrightarrow>
   load_voice_style env [os_path_join VOICE_STYLES_DIR name] = Inl e \<Longrightarrow>
   generate_audio_body env s text (Some name) speed steps =
     (Inl e, emit (DecodeStyle [os_path_join VOICE_STYLES_DIR name])
               (emit (Stat (os_path_join VOICE_STYLES_DIR name)) (snd (load_model env s))))"
  by (cases "load_model env s") (simp add: generate_audio_body_def Let_def)

lemma body_engine_raises:
  "strip text \<noteq> [] \<Longrightarrow> name \<noteq> [] \<Longrightarrow> fst (load_model env s) = Inr model \<Longrightarrow>
   path_exists env (os_path_join VOICE_STYLES_DIR name) \<Longrightarrow>
   load_voice_style env [os_path_join VOICE_STYLES_DIR name] = Inr style \<Longrightarrow>
   call_model env model text style steps speed = Inl e \<Longrightarrow>
   generate_audio_body env s text (Some name) speed steps =
     (Inl e, emit (Invoke model text style steps speed)
               (emit (DecodeStyle [os_path_join VOICE_STYLES_DIR name])
                  (emit (Stat (os_path_join VOICE_STYLES_DIR name)) (snd (load_model env s)))))"
  by (cases "load_model env s") (simp add: generate_audio_body_def Let_def)

lemma caught_result:
  assumes "generate_audio_body env s text name speed steps = (Inl e, s1)" and "is_Exception e"
  shows "fst (generate_audio env s text name speed steps) = Inr (None, ''Error: '' @ str_of e) \<and>
         last (trace (snd (generate_audio env s text name speed steps))) = Traceback e"
  by (simp add: handler_catches [OF assms] emit_def)

lemma generate_audio_warm_events:
  assumes "tts_model s = Some m"
  shows "snd (generate_audio env s text name speed steps) =
           s\<lparr>trace := trace s @ new_events s (snd (generate_audio env s text name speed steps))\<rparr> \<and>
         (\<forall>ev\<in>set (new_events s (snd (generate_audio env s text name speed steps))).
            \<not> is_Construct ev \<and> invokes_only m ev)"
proof -
  have lm: "load_model env s = (Inr m, s)"
    using assms by (rule load_model_warm)
  show ?thesis
    unfolding generate_audio_def generate_audio_body_def lm
    by (auto simp: emit_def Let_def new_events_def split: option.splits sum.splits prod.splits)
qed

lemma generate_audio_warm:
  assumes "tts_model s = Some m"
  shows "\<exists>evs. snd (generate_audio env s text name speed steps) = s\<lparr>trace := trace s @ evs\<rparr> \<and>
           (\<forall>ev\<in>set evs. \<not> is_Construct ev \<and> invokes_only m ev)"
  using generate_audio_warm_events [OF assms] by blast

lemma generate_audio_calls_warm:
  assumes "tts_model s = Some m"
  shows "\<exists>evs. generate_audio_calls rs s = s\<lparr>trace := trace s @ evs\<rparr> \<and>
           (\<forall>ev\<in>set evs. \<not> is_Construct ev \<and> invokes_only m ev)"
  using assms
proof (induction rs arbitrary: s)
  case Nil
  then show ?case by (auto intro: exI [of _ "[]"])
next
  case (Cons r rs)
  obtain env tx name speed steps where r: "r = (env, tx, name, speed, steps)"
    by (cases r) auto
  from generate_audio_warm [OF Cons.prems, of env tx name speed steps]
  obtain evs where 1: "snd (generate_audio env s tx name speed steps) = s\<lparr>trace := trace s @ evs\<rparr>"
    and 2: "\<forall>ev\<in>set evs. \<not> is_Construct ev \<and> invokes_only m ev"
    by blast
  let ?s1 = "s\<lparr>trace := trace s @ evs\<rparr>"
  have "tts_model ?s1 = Some m" using Cons.prems by simp
  from Cons.IH [OF this]
  obtain evs' where 3: "generate_audio_calls rs ?s1 = ?s1\<lparr>trace := trace ?s1 @ evs'\<rparr>"
    and 4: "\<forall>ev\<in>set evs'. \<not> is_Construct ev \<and> invokes_only m ev"
    by blast
  have "generate_audio_calls (r # rs) s = s\<lparr>trace := trace s @ (evs @ evs')\<rparr>"
    by (simp add: r 1 3)
  moreover have "\<forall>ev\<in>set (evs @ evs'). \<not> is_Construct ev \<and> invokes_only m ev"
    using 2 4 by auto
  ultimately show ?case by blast
qed

subsection \<open>A style file that does not exist\<close>

text \<open>
  C2, as amended. For a request with text that is not blank and a style name that is
  not empty, when the engine is acquired and the resolved style path does not exist on
  disk, \<^verbatim>\<open>generate_audio\<close> returns no audio and the status
  \<^verbatim>\<open>Voice style file not found: \<close> followed by the resolved path; the style decoder and
  the engine are not called. Whether the name is in the listing of
  \<^verbatim>\<open>get_voice_styles\<close> plays no part.
\<close>

theorem missing_style_file_rejected:
  assumes "strip text \<noteq> []" and "name \<noteq> []"
    and "fst (load_model env s) = Inr model"
    and "\<not> path_exists env (os_path_join VOICE_STYLES_DIR name)"
  shows "generate_audio env s text (Some name) speed total_steps =
           (Inr (None, ''Voice style file not found: '' @ os_path_join VOICE_STYLES_DIR name),
            emit (Stat (os_path_join VOICE_STYLES_DIR name)) (snd (load_model env s))) \<and>
         filter is_Invoke (trace (snd (generate_audio env s text (Some name) speed total_steps))) =
           filter is_Invoke (trace s) \<and>
         filter is_DecodeStyle (trace (snd (generate_audio env s text (Some name) speed total_steps))) =
           filter is_DecodeStyle (trace s)"
  by (simp add: generate_audio_not_found [OF assms] emit_def load_model_no_invoke)

theorem missing_style_file_rejected_witness:
  "strip example_text \<noteq> [] \<and>
   fst (load_model example_env initial_state) = Inr 7 \<and>
   \<not> path_exists example_env (os_path_join VOICE_STYLES_DIR ''missing.json'') \<and>
   fst (generate_audio example_env initial_state example_text (Some ''missing.json'') (21 / 20) 5) =
     Inr (None, ''Voice style file not found: assets/voice_styles/missing.json'') \<and>
   filter is_Invoke (trace (snd (generate_audio example_env initial_state example_text
     (Some ''missing.json'') (21 / 20) 5))) = []"
proof -
  have h2: "(''missing.json'' :: string) \<noteq> []"
    by simp
  have h3: "fst (load_model example_env initial_state) = Inr 7"
    by (simp add: example_load)
  have h4: "\<not> path_exists example_env (os_path_join VOICE_STYLES_DIR ''missing.json'')"
    by (simp add: example_paths example_exists)
  note t = missing_style_file_rejected [OF example_text_nonblank h2 h3 h4, of "21 / 20" 5]
  from t [THEN conjunct1]
  have a: "fst (generate_audio example_env initial_state example_text (Some ''missing.json'')
      (21 / 20) 5) = Inr (None, ''Voice style file not found: assets/voice_styles/missing.json'')"
    by (simp add: example_paths)
  from t [THEN conjunct2, THEN conjunct1]
  have b: "filter is_Invoke (trace (snd (generate_audio example_env initial_state example_text
      (Some ''missing.json'') (21 / 20) 5))) = []"
    by (simp add: initial_state_def)
  from example_text_nonblank h3 h4 a b show ?thesis
    by blast
qed

text \<open>
  C2, as stated, fails: \<^verbatim>\<open>notes.txt\<close> is in the style directory but not in the
  listing (it has no \<^verbatim>\<open>.json\<close> suffix); a request that names it passes the
  existence test, the engine is invoked and audio is returned.
\<close>

theorem unlisted_style_counterexample:
  "''notes.txt'' \<notin> set (get_voice_styles example_env) \<and>
   generate_audio example_env initial_state example_text (Some ''notes.txt'') (21 / 20) 5 =
     (Inr (Some (44100, [1 / 10, - 1 / 5, 3 / 10]), ''Generated successfully. Duration: 3.42s''),
      \<lparr>tts_model = Some 7,
        trace = [Stat ''assets/onnx'', Print ''Loading TTS model from assets/onnx...'',
                 Construct ''assets/onnx'' False, Print ''Model loaded successfully.'',
                 Stat ''assets/voice_styles/notes.txt'',
                 DecodeStyle [''assets/voice_styles/notes.txt''],
                 Invoke 7 example_text 1 5 (21 / 20)]\<rparr>)"
proof -
  have n: "(''notes.txt'' :: string) \<noteq> []"
    by simp
  have l: "fst (load_model example_env initial_state) = Inr 7"
    by (simp add: example_load)
  have p: "path_exists example_env (os_path_join VOICE_STYLES_DIR ''notes.txt'')"
    by (simp add: example_paths example_exists)
  note g = generate_audio_success [OF example_text_nonblank n l p example_collaborators(1)
      example_collaborators(2)]
  show ?thesis
    unfolding g example_collaborators(4) example_success_message
    by (simp add: example_listing example_collaborators(3) example_paths example_load emit_def)
qed

subsection \<open>Exceptions and the handler\<close>

text \<open>
  C6, as amended. No exception deriving from \<^verbatim>\<open>Exception\<close> leaves
  \<^verbatim>\<open>generate_audio\<close>. When such an exception is raised by the acquisition of the
  engine, by the style decoder or by the engine call, the result is no audio and the
  status \<^verbatim>\<open>Error: \<close> followed by \<^verbatim>\<open>str(e)\<close>, and the trace of the exception is the
  last thing written to the console.
\<close>

theorem exceptions_become_failures:
  "(\<forall>e. fst (generate_audio env s text voice_style_name speed total_steps) = Inl e \<longrightarrow>
        \<not> is_Exception e) \<and>
   (\<forall>e name. voice_style_name = Some name \<and> strip text \<noteq> [] \<and> name \<noteq> [] \<and> is_Exception e \<and>
      (fst (load_model env s) = Inl e \<or>
       (\<exists>model. fst (load_model env s) = Inr model \<and>
          path_exists env (os_path_join VOICE_STYLES_DIR name) \<and>
          (load_voice_style env [os_path_join VOICE_STYLES_DIR name] = Inl e \<or>
           (\<exists>style. load_voice_style env [os_path_join VOICE_STYLES_DIR name] = Inr style \<and>
              call_model env model text style total_steps speed = Inl e)))) \<longrightarrow>
      fst (generate_audio env s text voice_style_name speed total_steps) =
        Inr (None, ''Error: '' @ str_of e) \<and>
      last (trace (snd (generate_audio env s text voice_style_name speed total_steps))) =
        Traceback e)"
proof (intro conjI allI impI)
  fix e
  assume "fst (generate_audio env s text voice_style_name speed total_steps) = Inl e"
  then show "\<not> is_Exception e"
    by (rule no_Exception_leaves)
next
  fix e name
  assume a: "voice_style_name = Some name \<and> strip text \<noteq> [] \<and> name \<noteq> [] \<and> is_Exception e \<and>
      (fst (load_model env s) = Inl e \<or>
       (\<exists>model. fst (load_model env s) = Inr model \<and>
          path_exists env (os_path_join VOICE_STYLES_DIR name) \<and>
          (load_voice_style env [os_path_join VOICE_STYLES_DIR name] = Inl e \<or>
           (\<exists>style. load_voice_style env [os_path_join VOICE_STYLES_DIR name] = Inr style \<and>
              call_model env model text style total_steps speed = Inl e))))"
  then have "\<exists>s1. generate_audio_body env s text voice_style_name speed total_steps = (Inl e, s1)"
    using body_load_raises [of "text" name env s e speed total_steps]
      body_decode_raises [of "text" name env s _ e speed total_steps]
      body_engine_raises [of "text" name env s _ _ total_steps speed e]
    by blast
  then obtain s1 where "generate_audio_body env s text voice_style_name speed total_steps = (Inl e, s1)"
    by blast
  moreover from a have "is_Exception e" by blast
  ultimately have c: "fst (generate_audio env s text voice_style_name speed total_steps) =
        Inr (None, ''Error: '' @ str_of e) \<and>
      last (trace (snd (generate_audio env s text voice_style_name speed total_steps))) = Traceback e"
    by (rule caught_result)
  from c show "fst (generate_audio env s text voice_style_name speed total_steps) =
        Inr (None, ''Error: '' @ str_of e)" by blast
  from c show "last (trace (snd (generate_audio env s text voice_style_name speed total_steps))) =
        Traceback e" by blast
qed

theorem exceptions_become_failures_witness:
  "is_Exception (OtherException ''model file is corrupt'') \<and>
   fst (load_model broken_env initial_state) = Inl (OtherException ''model file is corrupt'') \<and>
   fst (generate_audio broken_env initial_state example_text (Some ''a.json'') (21 / 20) 5) =
     Inr (None, ''Error: model file is corrupt'') \<and>
   last (trace (snd (generate_audio broken_env initial_state example_text (Some ''a.json'')
     (21 / 20) 5))) = Traceback (OtherException ''model file is corrupt'')"
proof -
  have h1: "is_Exception (OtherException ''model file is corrupt'')"
    by simp
  have h3: "(''a.json'' :: string) \<noteq> []"
    by simp
  from exceptions_become_failures [of broken_env initial_state example_text "Some ''a.json''"
      "21 / 20" 5, THEN conjunct2, rule_format, of "''a.json''" "OtherException ''model file is corrupt''"]
    example_text_nonblank h1 broken_load h3
  have c: "fst (generate_audio broken_env initial_state example_text (Some ''a.json'') (21 / 20) 5) =
        Inr (None, ''Error: '' @ str_of (OtherException ''model file is corrupt'')) \<and>
      last (trace (snd (generate_audio broken_env initial_state example_text (Some ''a.json'')
        (21 / 20) 5))) = Traceback (OtherException ''model file is corrupt'')"
    by blast
  from c h1 broken_load show ?thesis
    by simp
qed

text \<open>
  C6, as stated, fails: \<^verbatim>\<open>except Exception\<close> does not catch an exception that
  derives from \<^verbatim>\<open>BaseException\<close> only; a \<^verbatim>\<open>KeyboardInterrupt\<close> raised while the
  engine is loaded leaves \<^verbatim>\<open>generate_audio\<close>.
\<close>

theorem interrupt_counterexample:
  "fst (generate_audio interrupted_env initial_state example_text (Some ''a.json'') (21 / 20) 5) =
     Inl (NonException ''KeyboardInterrupt'')"
proof -
  have n: "(''a.json'' :: string) \<noteq> []"
    by simp
  show ?thesis
    by (simp add: generate_audio_def
          body_load_raises [OF example_text_nonblank n interrupted_load])
qed

subsection \<open>The stored handle is kept\<close>

text \<open>
  C10. Once a handle is stored, any sequence of \<^verbatim>\<open>generate_audio\<close> calls, in any
  worlds and with any arguments, whether they succeed or fail, leaves that handle
  stored, calls the engine loader no more, invokes no engine but the stored one, and a
  following \<^verbatim>\<open>load_model\<close> returns the same handle without changing anything.
\<close>

theorem handle_never_replaced:
  assumes "tts_model s = Some m"
  shows "tts_model (generate_audio_calls rs s) = Some m \<and>
         constructions (generate_audio_calls rs s) = constructions s \<and>
         (\<forall>ev\<in>set (new_events s (generate_audio_calls rs s)). invokes_only m ev) \<and>
         load_model env (generate_audio_calls rs s) = (Inr m, generate_audio_calls rs s)"
proof -
  from generate_audio_calls_warm [OF assms, of rs]
  obtain evs where 1: "generate_audio_calls rs s = s\<lparr>trace := trace s @ evs\<rparr>"
    and 2: "\<forall>ev\<in>set evs. \<not> is_Construct ev \<and> invokes_only m ev"
    by blast
  have f: "filter is_Construct evs = []"
    using 2 by (simp add: filter_empty_conv)
  show ?thesis
    using assms 2 by (simp add: 1 f constructions_def new_events_def load_model_def)
qed

theorem handle_never_replaced_witness:
  "tts_model loaded_state = Some 7 \<and>
   tts_model (generate_audio_calls
     [(example_env, example_text, Some ''a.json'', 21 / 20, 5),
      (empty_env, example_text, Some ''a.json'', 21 / 20, 5),
      (broken_env, [], None, 1, 1)] loaded_state) = Some 7 \<and>
   constructions (generate_audio_calls
     [(example_env, example_text, Some ''a.json'', 21 / 20, 5),
      (empty_env, example_text, Some ''a.json'', 21 / 20, 5),
      (broken_env, [], None, 1, 1)] loaded_state) = 1"
proof -
  have h: "tts_model loaded_state = Some 7"
    by (simp add: loaded_state_eq)
  have c: "constructions loaded_state = 1"
    by (simp add: loaded_state_eq constructions_def)
  note t = handle_never_replaced [OF h, of
      "[(example_env, example_text, Some ''a.json'', 21 / 20, 5),
        (empty_env, example_text, Some ''a.json'', 21 / 20, 5),
        (broken_env, [], None, 1, 1)]" example_env]
  from t [THEN conjunct1] t [THEN conjunct2, THEN conjunct1] h c show ?thesis
    by simp
qed

subsection \<open>The engine is loaded before the style file is looked up\<close>

lemma style_path_not_onnx: "os_path_join VOICE_STYLES_DIR name \<noteq> ONNX_DIR"
  by (cases name) (auto simp: os_path_join_def VOICE_STYLES_DIR_def ONNX_DIR_def)

lemma load_model_cold_missing:
  assumes "tts_model s = None" and "\<not> path_exists env ONNX_DIR"
  shows "load_model env s =
           (Inl (FileNotFoundError missing_onnx_message), s\<lparr>trace := trace s @ [Stat ONNX_DIR]\<rparr>)"
  using assms by (simp add: load_model_def emit_def Let_def)

lemma load_model_cold_failure:
  assumes "tts_model s = None" and "path_exists env ONNX_DIR"
    and "load_text_to_speech env ONNX_DIR False = Inl e"
  shows "load_model env s =
           (Inl e, s\<lparr>trace := trace s @ [Stat ONNX_DIR,
               Print (''Loading TTS model from '' @ ONNX_DIR @ ''...''),
               Construct ONNX_DIR False]\<rparr>)"
  using assms by (simp add: load_model_def emit_def Let_def)

text \<open>
  C9. A request with text that is not blank and a style name that is not empty, made
  while no handle is stored, does not ask the file system for the style file before the
  engine loader has been called: no event of the call that precedes the construction
  is the existence test of the resolved style path (and when the construction is never
  reached, the style path is never tested). So when such a request ends with the status
  \<^verbatim>\<open>Voice style file not found: \<close> and the path, the loader has been called and has
  returned a handle, that handle is stored, and the call has done exactly this, in
  order: the test of the engine directory, the first console line, the construction,
  the second console line, the test of the style path.
\<close>

theorem cold_start_loads_before_style_check:
  assumes "tts_model s = None" and "strip text \<noteq> []" and "name \<noteq> []"
  shows "(\<forall>ev\<in>set (takeWhile (\<lambda>ev. \<not> is_Construct ev)
              (new_events s (snd (generate_audio env s text (Some name) speed total_steps)))).
            ev \<noteq> Stat (os_path_join VOICE_STYLES_DIR name)) \<and>
         (fst (generate_audio env s text (Some name) speed total_steps) =
            Inr (None, ''Voice style file not found: '' @ os_path_join VOICE_STYLES_DIR name) \<longrightarrow>
          (\<exists>m. load_text_to_speech env ONNX_DIR False = Inr m \<and>
               tts_model (snd (generate_audio env s text (Some name) speed total_steps)) = Some m) \<and>
          new_events s (snd (generate_audio env s text (Some name) speed total_steps)) =
            [Stat ONNX_DIR, Print (''Loading TTS model from '' @ ONNX_DIR @ ''...''),
             Construct ONNX_DIR False, Print ''Model loaded successfully.'',
             Stat (os_path_join VOICE_STYLES_DIR name)])"
proof (cases "path_exists env ONNX_DIR")
  case False
  note lm = load_model_cold_missing [OF assms(1) False]
  show ?thesis
    using assms(2,3) style_path_not_onnx [of name]
    by (simp add: generate_audio_def generate_audio_body_def lm emit_def new_events_def)
next
  case True
  show ?thesis
  proof (cases "load_text_to_speech env ONNX_DIR False")
    case (Inl e)
    note lm = load_model_cold_failure [OF assms(1) True Inl]
    show ?thesis
      using assms(2,3) style_path_not_onnx [of name]
      by (simp add: generate_audio_def generate_audio_body_def lm emit_def new_events_def)
  next
    case (Inr m)
    note lm = load_model_cold_success [OF assms(1) True Inr]
    show ?thesis
      using assms(2,3) style_path_not_onnx [of name] Inr
      by (simp add: generate_audio_def generate_audio_body_def lm emit_def new_events_def
            Let_def success_message_def split: sum.splits prod.splits)
  qed
qed

theorem cold_start_loads_before_style_check_witness:
  "tts_model (initial_state :: (nat, nat) state) = None \<and> strip example_text \<noteq> [] \<and>
   fst (generate_audio example_env initial_state example_text (Some ''missing.json'') (21 / 20) 5) =
     Inr (None, ''Voice style file not found: assets/voice_styles/missing.json'') \<and>
   tts_model (snd (generate_audio example_env initial_state example_text (Some ''missing.json'')
     (21 / 20) 5)) = Some 7 \<and>
   new_events initial_state (snd (generate_audio example_env initial_state example_text
     (Some ''missing.json'') (21 / 20) 5)) =
     [Stat ''assets/onnx'', Print ''Loading TTS model from assets/onnx...'',
      Construct ''assets/onnx'' False, Print ''Model loaded successfully.'',
      Stat ''assets/voice_styles/missing.json'']"
proof -
  have h1: "tts_model (initial_state :: (nat, nat) state) = None"
    by (simp add: initial_state_def)
  have h3: "(''missing.json'' :: string) \<noteq> []"
    by simp
  have l: "fst (load_model example_env initial_state) = Inr 7"
    by (simp add: example_load)
  have p: "\<not> path_exists example_env (os_path_join VOICE_STYLES_DIR ''missing.json'')"
    by (simp add: example_paths example_exists)
  have g: "fst (generate_audio example_env initial_state example_text (Some ''missing.json'')
      (21 / 20) 5) =
      Inr (None, ''Voice style file not found: '' @ os_path_join VOICE_STYLES_DIR ''missing.json'')"
    by (simp add: generate_audio_not_found [OF example_text_nonblank h3 l p])
  have e: "load_text_to_speech example_env ONNX_DIR False = Inr 7"
    by (simp add: example_env_def)
  note t = cold_start_loads_before_style_check [OF h1 example_text_nonblank h3,
      of example_env "21 / 20" 5, THEN conjunct2, rule_format, OF g]
  from t [THEN conjunct1] e
  have a: "tts_model (snd (generate_audio example_env initial_state example_text
      (Some ''missing.json'') (21 / 20) 5)) = Some 7"
    by auto
  from t [THEN conjunct2]
  have b: "new_events initial_state (snd (generate_audio example_env initial_state example_text
      (Some ''missing.json'') (21 / 20) 5)) =
     [Stat ''assets/onnx'', Print ''Loading TTS model from assets/onnx...'',
      Construct ''assets/onnx'' False, Print ''Model loaded successfully.'',
      Stat ''assets/voice_styles/missing.json'']"
    by (simp add: example_paths ONNX_DIR_def)
  from g have g': "fst (generate_audio example_env initial_state example_text
      (Some ''missing.json'') (21 / 20) 5) =
      Inr (None, ''Voice style file not found: assets/voice_styles/missing.json'')"
    by (simp add: example_paths)
  from h1 example_text_nonblank g' a b show ?thesis
    by blast
qed

subsection \<open>The resolved style path\<close>

lemma style_join:
  "prefix ''/'' name \<Longrightarrow> os_path_join VOICE_STYLES_DIR name = name"
  "\<not> prefix ''/'' name \<Longrightarrow> os_path_join VOICE_STYLES_DIR name = VOICE_STYLES_DIR @ ''/'' @ name"
  by (simp_all add: os_path_join_def VOICE_STYLES_DIR_def suffix_def)

lemma generate_audio_paths:
  assumes "strip text \<noteq> []" and "name \<noteq> []" and "fst (load_model env s) = Inr model"
  shows "prefix (trace (snd (load_model env s)))
           (trace (snd (generate_audio env s text (Some name) speed total_steps))) \<and>
         hd (new_events (snd (load_model env s))
            (snd (generate_audio env s text (Some name) speed total_steps))) =
           Stat (os_path_join VOICE_STYLES_DIR name) \<and>
         set (concat (map paths_of (new_events (snd (load_model env s))
            (snd (generate_audio env s text (Some name) speed total_steps))))) =
           {os_path_join VOICE_STYLES_DIR name}"
proof (cases "load_model env s")
  case (Pair r s1)
  with assms(3) have lm: "load_model env s = (Inr model, s1)"
    by simp
  show ?thesis
    using assms(1,2)
    by (simp add: generate_audio_def generate_audio_body_def lm emit_def new_events_def Let_def
          split: sum.split prod.split)
qed

lemma escape_paths:
  "os_path_join VOICE_STYLES_DIR ''../onnx/tts.json'' = ''assets/voice_styles/../onnx/tts.json''"
  "path_exists escape_env ''assets/voice_styles/../onnx/tts.json''"
  "path_exists escape_env ''assets/onnx/tts.json''"
  "load_voice_style escape_env ps = Inr 1"
  "call_model escape_env m t st n r = Inr ([[1 / 10, - 1 / 5, 3 / 10]], example_durations)"
  "sample_rate escape_env m = 44100"
  "array_sum escape_env example_durations = example_sum"
  by (simp_all add: escape_env_def example_env_def os_path_join_def VOICE_STYLES_DIR_def
        suffix_def)

text \<open>
  C3, as amended. For a request with text that is not blank and a style name that is
  not empty, once the engine is acquired, \<^verbatim>\<open>generate_audio\<close> goes on from the state
  the acquisition left; the first thing it does is to test the existence of
  \<^verbatim>\<open>os.path.join(VOICE_STYLES_DIR, name)\<close>, and that path is the only one it tests
  or hands to the style decoder. When
  the name starts with the separator, that path is the name itself, an absolute path
  in which the style directory plays no part. When it does not, that path is the style
  directory, a separator and the name: a relative path, since the configured directory
  \<^verbatim>\<open>assets/voice_styles\<close> is relative and the path is not made absolute. It then
  begins with the style directory as a string; the name is not examined further, so
  this says nothing of where the file is.
\<close>

theorem style_path_resolution:
  assumes "strip text \<noteq> []" and "name \<noteq> []" and "fst (load_model env s) = Inr model"
  shows "prefix (trace (snd (load_model env s)))
           (trace (snd (generate_audio env s text (Some name) speed total_steps))) \<and>
         hd (new_events (snd (load_model env s))
            (snd (generate_audio env s text (Some name) speed total_steps))) =
           Stat (os_path_join VOICE_STYLES_DIR name) \<and>
         set (concat (map paths_of (new_events (snd (load_model env s))
            (snd (generate_audio env s text (Some name) speed total_steps))))) =
           {os_path_join VOICE_STYLES_DIR name} \<and>
         (prefix ''/'' name \<longrightarrow>
            os_path_join VOICE_STYLES_DIR name = name \<and>
            os_path_isabs (os_path_join VOICE_STYLES_DIR name)) \<and>
         (\<not> prefix ''/'' name \<longrightarrow>
            os_path_join VOICE_STYLES_DIR name = VOICE_STYLES_DIR @ ''/'' @ name \<and>
            \<not> os_path_isabs (os_path_join VOICE_STYLES_DIR name))"
proof -
  note p = generate_audio_paths [OF assms, of speed total_steps]
  have a: "prefix ''/'' name \<longrightarrow>
            os_path_join VOICE_STYLES_DIR name = name \<and>
            os_path_isabs (os_path_join VOICE_STYLES_DIR name)"
    by (simp add: style_join(1) os_path_isabs_def)
  have b: "\<not> prefix ''/'' name \<longrightarrow>
            os_path_join VOICE_STYLES_DIR name = VOICE_STYLES_DIR @ ''/'' @ name \<and>
            \<not> os_path_isabs (os_path_join VOICE_STYLES_DIR name)"
  proof
    assume n: "\<not> prefix ''/'' name"
    show "os_path_join VOICE_STYLES_DIR name = VOICE_STYLES_DIR @ ''/'' @ name \<and>
          \<not> os_path_isabs (os_path_join VOICE_STYLES_DIR name)"
      unfolding style_join(2) [OF n] by (simp add: os_path_isabs_def VOICE_STYLES_DIR_def)
  qed
  from p a b show ?thesis
    by blast
qed

theorem style_path_resolution_witness:
  "strip example_text \<noteq> [] \<and> fst (load_model example_env initial_state) = Inr 7 \<and>
   \<not> prefix ''/'' ''a.json'' \<and>
   set (concat (map paths_of (new_events (snd (load_model example_env initial_state))
     (snd (generate_audio example_env initial_state example_text (Some ''a.json'') (21 / 20) 5))))) =
     {''assets/voice_styles/a.json''} \<and>
   \<not> os_path_isabs (os_path_join VOICE_STYLES_DIR ''a.json'') \<and>
   prefix ''/'' ''/tmp/x.json'' \<and>
   set (concat (map paths_of (new_events (snd (load_model example_env initial_state))
     (snd (generate_audio example_env initial_state example_text (Some ''/tmp/x.json'') (21 / 20) 5))))) =
     {''/tmp/x.json''} \<and>
   os_path_isabs (os_path_join VOICE_STYLES_DIR ''/tmp/x.json'')"
proof -
  have n1: "(''a.json'' :: string) \<noteq> []" and n2: "(''/tmp/x.json'' :: string) \<noteq> []"
    by simp_all
  have l: "fst (load_model example_env initial_state) = Inr 7"
    by (simp add: example_load)
  have r: "\<not> prefix ''/'' ''a.json''" and a: "prefix ''/'' ''/tmp/x.json''"
    by simp_all
  note t = style_path_resolution [OF example_text_nonblank n1 l, of "21 / 20" 5]
  note u = style_path_resolution [OF example_text_nonblank n2 l, of "21 / 20" 5]
  note t' = t [THEN conjunct2, THEN conjunct2]
  note u' = u [THEN conjunct2, THEN conjunct2]
  from t' [THEN conjunct1]
  have t1: "set (concat (map paths_of (new_events (snd (load_model example_env initial_state))
     (snd (generate_audio example_env initial_state example_text (Some ''a.json'') (21 / 20) 5))))) =
     {''assets/voice_styles/a.json''}"
    by (simp add: example_paths)
  note t3 = t' [THEN conjunct2, THEN conjunct2, rule_format, OF r, THEN conjunct2]
  from u' [THEN conjunct1]
  have u1: "set (concat (map paths_of (new_events (snd (load_model example_env initial_state))
     (snd (generate_audio example_env initial_state example_text (Some ''/tmp/x.json'') (21 / 20) 5))))) =
     {''/tmp/x.json''}"
    by (simp add: example_paths)
  note u2 = u' [THEN conjunct2, THEN conjunct1, rule_format, OF a, THEN conjunct2]
  from example_text_nonblank l r t1 t3 a u1 u2 show ?thesis
    by blast
qed

text \<open>
  C3, as stated, fails. The request for \<^verbatim>\<open>a.json\<close> is accepted and synthesized, and
  the path it resolves to, \<^verbatim>\<open>assets/voice_styles/a.json\<close>, is not absolute. And the
  request for \<^verbatim>\<open>../onnx/tts.json\<close> is accepted and synthesized as well, in a world
  where the engine directory holds \<^verbatim>\<open>tts.json\<close>: the path it resolves to,
  \<^verbatim>\<open>assets/voice_styles/../onnx/tts.json\<close>, is that file of the engine directory,
  which is not under the style directory.
\<close>

theorem absolute_style_path_counterexample:
  "generate_audio example_env loaded_state example_text (Some ''a.json'') (21 / 20) 5 =
     (Inr (Some (44100, [1 / 10, - 1 / 5, 3 / 10]), ''Generated successfully. Duration: 3.42s''),
      loaded_state\<lparr>trace := trace loaded_state @
        [Stat ''assets/voice_styles/a.json'', DecodeStyle [''assets/voice_styles/a.json''],
         Invoke 7 example_text 1 5 (21 / 20)]\<rparr>) \<and>
   \<not> os_path_isabs ''assets/voice_styles/a.json'' \<and>
   path_exists escape_env ''assets/onnx/tts.json'' \<and>
   generate_audio escape_env loaded_state example_text (Some ''../onnx/tts.json'') (21 / 20) 5 =
     (Inr (Some (44100, [1 / 10, - 1 / 5, 3 / 10]), ''Generated successfully. Duration: 3.42s''),
      loaded_state\<lparr>trace := trace loaded_state @
        [Stat ''assets/voice_styles/../onnx/tts.json'',
         DecodeStyle [''assets/voice_styles/../onnx/tts.json''],
         Invoke 7 example_text 1 5 (21 / 20)]\<rparr>)"
proof -
  have n: "(''a.json'' :: string) \<noteq> []" and n': "(''../onnx/tts.json'' :: string) \<noteq> []"
    by simp_all
  have w: "tts_model loaded_state = Some 7"
    by (simp add: loaded_state_eq)
  have l: "fst (load_model example_env loaded_state) = Inr 7"
    and l': "fst (load_model escape_env loaded_state) = Inr 7"
    by (simp_all add: load_model_warm [OF w])
  have p: "path_exists example_env (os_path_join VOICE_STYLES_DIR ''a.json'')"
    by (simp add: example_paths example_exists)
  have p': "path_exists escape_env (os_path_join VOICE_STYLES_DIR ''../onnx/tts.json'')"
    by (simp add: escape_paths)
  note g = generate_audio_success [OF example_text_nonblank n l p example_collaborators(1)
      example_collaborators(2)]
  note g' = generate_audio_success [OF example_text_nonblank n' l' p' escape_paths(4)
      escape_paths(5)]
  have a: "generate_audio example_env loaded_state example_text (Some ''a.json'') (21 / 20) 5 =
     (Inr (Some (44100, [1 / 10, - 1 / 5, 3 / 10]), ''Generated successfully. Duration: 3.42s''),
      loaded_state\<lparr>trace := trace loaded_state @
        [Stat ''assets/voice_styles/a.json'', DecodeStyle [''assets/voice_styles/a.json''],
         Invoke 7 example_text 1 5 (21 / 20)]\<rparr>)"
    unfolding g example_collaborators(4) example_success_message
    by (simp add: example_collaborators(3) example_paths load_model_warm [OF w] emit_def)
  have b: "\<not> os_path_isabs ''assets/voice_styles/a.json''"
    by (simp add: os_path_isabs_def)
  have c: "generate_audio escape_env loaded_state example_text (Some ''../onnx/tts.json'')
       (21 / 20) 5 =
     (Inr (Some (44100, [1 / 10, - 1 / 5, 3 / 10]), ''Generated successfully. Duration: 3.42s''),
      loaded_state\<lparr>trace := trace loaded_state @
        [Stat ''assets/voice_styles/../onnx/tts.json'',
         DecodeStyle [''assets/voice_styles/../onnx/tts.json''],
         Invoke 7 example_text 1 5 (21 / 20)]\<rparr>)"
    unfolding g' escape_paths(7) example_success_message
    by (simp add: escape_paths(6) escape_paths(1) load_model_warm [OF w] emit_def)
  from a b escape_paths(3) c show ?thesis
    by blast
qed

subsection \<open>The status line of a successful request\<close>

lemma round_half_even_close: "\<bar>of_int (round_half_even x) - x\<bar> \<le> 1 / 2"
proof -
  have "of_int \<lfloor>x\<rfloor> \<le> x" and "x < of_int \<lfloor>x\<rfloor> + 1"
    by linarith+
  then show ?thesis
    by (auto simp: round_half_even_def Let_def)
qed

lemma fixed_2f_digits:
  "\<exists>h. \<bar>of_nat h - \<bar>x\<bar> * 100\<bar> \<le> 1 / 2 \<and>
       fixed_2f x = (if x < 0 then ''-'' else '''') @ show_nat (h div 100) @ ''.'' @
         [digit (h mod 100 div 10), digit (h mod 10)]"
proof -
  let ?r = "round_half_even (\<bar>x\<bar> * 100)"
  have c: "\<bar>of_int ?r - \<bar>x\<bar> * 100\<bar> \<le> 1 / 2"
    by (rule round_half_even_close)
  have "0 \<le> ?r"
  proof (rule ccontr)
    assume "\<not> 0 \<le> ?r"
    then have "?r \<le> - 1" by simp
    then have "(of_int ?r :: rat) \<le> - 1" by linarith
    moreover have "0 \<le> \<bar>x\<bar> * 100" by simp
    ultimately show False using c by linarith
  qed
  then have "(of_nat (nat ?r) :: rat) = of_int ?r"
    by simp
  with c have "\<bar>of_nat (nat ?r) - \<bar>x\<bar> * 100\<bar> \<le> 1 / 2"
    by simp
  moreover have "fixed_2f x = (if x < 0 then ''-'' else '''') @ show_nat (nat ?r div 100) @ ''.'' @
         [digit (nat ?r mod 100 div 10), digit (nat ?r mod 10)]"
    by (simp add: fixed_2f_def Let_def)
  ultimately show ?thesis
    by blast
qed

lemma round_half_even_342:
  assumes "683 / 2 \<le> y" and "y \<le> 685 / 2"
  shows "round_half_even y = 342"
proof -
  have f: "\<lfloor>y\<rfloor> = 341 \<or> \<lfloor>y\<rfloor> = 342"
  proof -
    have "341 \<le> \<lfloor>y\<rfloor>"
      using assms(1) by (simp add: le_floor_iff)
    moreover have "\<lfloor>y\<rfloor> < 343"
      using assms(2) by (simp add: floor_less_iff)
    ultimately show ?thesis
      by linarith
  qed
  then show ?thesis
  proof
    assume a: "\<lfloor>y\<rfloor> = 341"
    then show ?thesis
      using assms(1) by (simp add: round_half_even_def Let_def)
  next
    assume a: "\<lfloor>y\<rfloor> = 342"
    then have "342 \<le> y"
      using of_int_floor_le [of y] by simp
    then show ?thesis
      using a assms(2) by (simp add: round_half_even_def Let_def)
  qed
qed

lemma fixed_2f_342:
  assumes "3415 / 1000 \<le> x" and "x \<le> 3425 / 1000"
  shows "fixed_2f x = ''3.42''"
proof -
  have p: "\<bar>x\<bar> = x" and n: "\<not> x < 0"
    using assms(1) by simp_all
  have "round_half_even (\<bar>x\<bar> * 100) = 342"
    unfolding p using assms by (intro round_half_even_342) simp_all
  then show ?thesis
    using n by (simp add: fixed_2f_def Let_def show_nat.simps digit_def)
qed

text \<open>
  The durations of the examples are double-precision numbers (a numerator of 53 bits
  over a power of two), each less than half a unit in the last place away from 1.234
  and from 2.184; their exact sum is a double-precision number, the sum of the
  examples.
\<close>

lemma example_doubles:
  "(694680242521899 / 562949953421312 :: rat) = 5557441940175192 / 2 ^ 52"
  "\<bar>(694680242521899 / 562949953421312 :: rat) - 1234 / 1000\<bar> < 1 / 2 ^ 53"
  "(2458965396544291 / 1125899906842624 :: rat) = 4917930793088582 / 2 ^ 51"
  "\<bar>(2458965396544291 / 1125899906842624 :: rat) - 2184 / 1000\<bar> < 1 / 2 ^ 52"
  "(3848325881588089 / 1125899906842624 :: rat) = 7696651763176178 / 2 ^ 51"
  "(694680242521899 / 562949953421312 :: rat) + 2458965396544291 / 1125899906842624 =
     3848325881588089 / 1125899906842624"
  by simp_all

lemma example_sum_bounds:
  "(3415 / 1000 :: rat) \<le> 3848325881588089 / 1125899906842624"
  "(3848325881588089 / 1125899906842624 :: rat) \<le> 3425 / 1000"
  by simp_all

text \<open>
  C7, as amended. When every step of a request succeeds, the status is
  \<^verbatim>\<open>Generated successfully. Duration: \<close>, then the value of \<^verbatim>\<open>duration.sum()\<close>
  (the floating-point sum of the per-segment durations, as the array computes it)
  formatted with two decimals, then \<^verbatim>\<open>s\<close>; the audio is the sample rate of the
  engine and the flattened samples. When that sum is finite, its formatted text is the
  sign, then the decimal numeral of a whole number of hundredths that is within half a
  hundredth of the magnitude of the sum, with two digits after the point; so, when the
  durations are finite too, the number shown differs from the magnitude of their exact
  sum by at most half a hundredth and the error of the floating-point summation. In
  particular, whenever that sum is a finite number from 3.415 to 3.425, as the sum of
  the durations 1.234 and 2.184 is, the status is exactly
  \<^verbatim>\<open>Generated successfully. Duration: 3.42s\<close>.
\<close>

theorem success_status_line:
  assumes "strip text \<noteq> []" and "name \<noteq> []"
    and "fst (load_model env s) = Inr model"
    and "path_exists env (os_path_join VOICE_STYLES_DIR name)"
    and "load_voice_style env [os_path_join VOICE_STYLES_DIR name] = Inr style"
    and "call_model env model text style total_steps speed = Inr (wav, duration)"
  shows "fst (generate_audio env s text (Some name) speed total_steps) =
           Inr (Some (sample_rate env model, concat wav),
                ''Generated successfully. Duration: '' @ format_2f (array_sum env duration) @ ''s'') \<and>
         (\<forall>x. array_sum env duration = Finite x \<longrightarrow>
            (\<exists>h. \<bar>of_nat h - \<bar>x\<bar> * 100\<bar> \<le> 1 / 2 \<and>
                 format_2f (array_sum env duration) =
                   (if x < 0 then ''-'' else '''') @ show_nat (h div 100) @ ''.'' @
                   [digit (h mod 100 div 10), digit (h mod 10)])) \<and>
         (\<forall>x qs. array_sum env duration = Finite x \<and> duration = map Finite qs \<longrightarrow>
            (\<exists>h. \<bar>of_nat h / 100 - \<bar>sum_list qs\<bar>\<bar> \<le> 1 / 200 + \<bar>x - sum_list qs\<bar> \<and>
                 format_2f (array_sum env duration) =
                   (if x < 0 then ''-'' else '''') @ show_nat (h div 100) @ ''.'' @
                   [digit (h mod 100 div 10), digit (h mod 10)])) \<and>
         (\<forall>x. array_sum env duration = Finite x \<and> 3415 / 1000 \<le> x \<and> x \<le> 3425 / 1000 \<longrightarrow>
            fst (generate_audio env s text (Some name) speed total_steps) =
              Inr (Some (sample_rate env model, concat wav),
                   ''Generated successfully. Duration: 3.42s''))"
proof -
  have c: "\<forall>x qs. array_sum env duration = Finite x \<and> duration = map Finite qs \<longrightarrow>
            (\<exists>h. \<bar>of_nat h / 100 - \<bar>sum_list qs\<bar>\<bar> \<le> 1 / 200 + \<bar>x - sum_list qs\<bar> \<and>
                 format_2f (array_sum env duration) =
                   (if x < 0 then ''-'' else '''') @ show_nat (h div 100) @ ''.'' @
                   [digit (h mod 100 div 10), digit (h mod 10)])"
  proof (intro allI impI)
    fix x qs
    assume a: "array_sum env duration = Finite x \<and> duration = map Finite qs"
    from fixed_2f_digits [of x]
    obtain h where h: "\<bar>of_nat h - \<bar>x\<bar> * 100\<bar> \<le> 1 / 2"
      and f: "fixed_2f x = (if x < 0 then ''-'' else '''') @ show_nat (h div 100) @ ''.'' @
         [digit (h mod 100 div 10), digit (h mod 10)]"
      by blast
    have "\<bar>of_nat h / 100 - \<bar>x\<bar>\<bar> \<le> 1 / 200"
      using h by (simp add: abs_le_iff field_simps)
    moreover have "\<bar>\<bar>x\<bar> - \<bar>sum_list qs\<bar>\<bar> \<le> \<bar>x - sum_list qs\<bar>"
      by (rule abs_triangle_ineq3)
    ultimately have "\<bar>of_nat h / 100 - \<bar>sum_list qs\<bar>\<bar> \<le> 1 / 200 + \<bar>x - sum_list qs\<bar>"
      by linarith
    with a f show "\<exists>h. \<bar>of_nat h / 100 - \<bar>sum_list qs\<bar>\<bar> \<le> 1 / 200 + \<bar>x - sum_list qs\<bar> \<and>
                 format_2f (array_sum env duration) =
                   (if x < 0 then ''-'' else '''') @ show_nat (h div 100) @ ''.'' @
                   [digit (h mod 100 div 10), digit (h mod 10)]"
      by auto
  qed
  have g: "fst (generate_audio env s text (Some name) speed total_steps) =
           Inr (Some (sample_rate env model, concat wav),
                ''Generated successfully. Duration: '' @ format_2f (array_sum env duration) @ ''s'')"
    by (simp add: generate_audio_success [OF assms] success_message_def)
  have d: "\<forall>x. array_sum env duration = Finite x \<longrightarrow>
            (\<exists>h. \<bar>of_nat h - \<bar>x\<bar> * 100\<bar> \<le> 1 / 2 \<and>
                 format_2f (array_sum env duration) =
                   (if x < 0 then ''-'' else '''') @ show_nat (h div 100) @ ''.'' @
                   [digit (h mod 100 div 10), digit (h mod 10)])"
  proof (intro allI impI)
    fix x
    assume a: "array_sum env duration = Finite x"
    show "\<exists>h. \<bar>of_nat h - \<bar>x\<bar> * 100\<bar> \<le> 1 / 2 \<and>
                 format_2f (array_sum env duration) =
                   (if x < 0 then ''-'' else '''') @ show_nat (h div 100) @ ''.'' @
                   [digit (h mod 100 div 10), digit (h mod 10)]"
      unfolding a format_2f.simps by (rule fixed_2f_digits)
  qed
  have e: "\<forall>x. array_sum env duration = Finite x \<and> 3415 / 1000 \<le> x \<and> x \<le> 3425 / 1000 \<longrightarrow>
            fst (generate_audio env s text (Some name) speed total_steps) =
              Inr (Some (sample_rate env model, concat wav),
                   ''Generated successfully. Duration: 3.42s'')"
  proof (intro allI impI)
    fix x
    assume a: "array_sum env duration = Finite x \<and> 3415 / 1000 \<le> x \<and> x \<le> 3425 / 1000"
    then have "fixed_2f x = ''3.42''"
      by (intro fixed_2f_342) simp_all
    with a show "fst (generate_audio env s text (Some name) speed total_steps) =
              Inr (Some (sample_rate env model, concat wav),
                   ''Generated successfully. Duration: 3.42s'')"
      by (simp add: g)
  qed
  from g d c e show ?thesis
    by blast
qed

theorem success_status_line_witness:
  "strip example_text \<noteq> [] \<and> (''a.json'' :: string) \<noteq> [] \<and>
   fst (load_model example_env initial_state) = Inr 7 \<and>
   path_exists example_env (os_path_join VOICE_STYLES_DIR ''a.json'') \<and>
   load_voice_style example_env [os_path_join VOICE_STYLES_DIR ''a.json''] = Inr 1 \<and>
   call_model example_env 7 example_text 1 5 (21 / 20) =
     Inr ([[1 / 10, - 1 / 5, 3 / 10]],
          [Finite (694680242521899 / 562949953421312),
           Finite (2458965396544291 / 1125899906842624)]) \<and>
   array_sum example_env [Finite (694680242521899 / 562949953421312),
       Finite (2458965396544291 / 1125899906842624)] =
     Finite (3848325881588089 / 1125899906842624) \<and>
   (3415 / 1000 :: rat) \<le> 3848325881588089 / 1125899906842624 \<and>
   (3848325881588089 / 1125899906842624 :: rat) \<le> 3425 / 1000 \<and>
   fst (generate_audio example_env initial_state example_text (Some ''a.json'') (21 / 20) 5) =
     Inr (Some (44100, [1 / 10, - 1 / 5, 3 / 10]), ''Generated successfully. Duration: 3.42s'')"
proof -
  have n: "(''a.json'' :: string) \<noteq> []"
    by simp
  have l: "fst (load_model example_env initial_state) = Inr 7"
    by (simp add: example_load)
  have p: "path_exists example_env (os_path_join VOICE_STYLES_DIR ''a.json'')"
    by (simp add: example_paths example_exists)
  have c: "call_model example_env 7 example_text 1 5 (21 / 20) =
     Inr ([[1 / 10, - 1 / 5, 3 / 10]],
          [Finite (694680242521899 / 562949953421312),
           Finite (2458965396544291 / 1125899906842624)])"
    unfolding example_collaborators(2) example_durations_def by (rule refl)
  have a: "array_sum example_env [Finite (694680242521899 / 562949953421312),
       Finite (2458965396544291 / 1125899906842624)] =
     Finite (3848325881588089 / 1125899906842624)"
    using example_collaborators(4) unfolding example_durations_def example_sum_def .
  have a': "array_sum example_env example_durations =
      Finite (3848325881588089 / 1125899906842624) \<and>
      3415 / 1000 \<le> (3848325881588089 / 1125899906842624 :: rat) \<and>
      (3848325881588089 / 1125899906842624 :: rat) \<le> 3425 / 1000"
    using example_collaborators(4) example_sum_bounds unfolding example_sum_def by blast
  note t = success_status_line [OF example_text_nonblank n l p example_collaborators(1)
      example_collaborators(2), THEN conjunct2, THEN conjunct2, THEN conjunct2, rule_format,
      OF a']
  have g: "fst (generate_audio example_env initial_state example_text (Some ''a.json'') (21 / 20) 5) =
     Inr (Some (44100, [1 / 10, - 1 / 5, 3 / 10]), ''Generated successfully. Duration: 3.42s'')"
    unfolding t by (simp add: example_collaborators(3))
  from example_text_nonblank n l p example_collaborators(1) c a example_sum_bounds g
  show ?thesis
    by blast
qed

text \<open>
  C7, as stated, fails: for the per-segment durations 1.234 and 2.184, whose sum is
  3.418, the status returned is \<^verbatim>\<open>Generated successfully. Duration: 3.42s\<close>, which
  is not the string \<^verbatim>\<open>Duration: 3.42s\<close>.
\<close>

theorem duration_summary_counterexample:
  "call_model example_env 7 example_text 1 5 (21 / 20) =
     Inr ([[1 / 10, - 1 / 5, 3 / 10]], example_durations) \<and>
   array_sum example_env example_durations = example_sum \<and>
   fst (generate_audio example_env initial_state example_text (Some ''a.json'') (21 / 20) 5) =
     Inr (Some (44100, [1 / 10, - 1 / 5, 3 / 10]), success_message example_sum) \<and>
   success_message example_sum = ''Generated successfully. Duration: 3.42s'' \<and>
   success_message example_sum \<noteq> ''Duration: 3.42s''"
proof -
  have n: "(''a.json'' :: string) \<noteq> []"
    by simp
  have l: "fst (load_model example_env initial_state) = Inr 7"
    by (simp add: example_load)
  have p: "path_exists example_env (os_path_join VOICE_STYLES_DIR ''a.json'')"
    by (simp add: example_paths example_exists)
  note g = generate_audio_success [OF example_text_nonblank n l p example_collaborators(1)
      example_collaborators(2)]
  have a: "fst (generate_audio example_env initial_state example_text (Some ''a.json'') (21 / 20) 5) =
     Inr (Some (44100, [1 / 10, - 1 / 5, 3 / 10]), success_message example_sum)"
    unfolding g example_collaborators(4) by (simp add: example_collaborators(3))
  have b: "success_message example_sum \<noteq> ''Duration: 3.42s''"
    unfolding example_success_message by simp
  from example_collaborators(2) example_collaborators(4) a example_success_message b
  show ?thesis
    by blast
qed

subsection \<open>The listing of the style directory\<close>

lemma basename_no_slash: "CHR ''/'' \<notin> set (os_path_basename p)"
proof -
  have "\<forall>c\<in>set (takeWhile (\<lambda>c. c \<noteq> CHR ''/'') (rev p)). c \<noteq> CHR ''/''"
    by (auto dest: set_takeWhileD)
  then show ?thesis
    by (auto simp: os_path_basename_def)
qed

lemma basename_join:
  assumes "CHR ''/'' \<notin> set n"
  shows "os_path_basename (os_path_join VOICE_STYLES_DIR n) = n"
proof -
  have np: "\<not> prefix ''/'' n"
    using assms by (cases n) auto
  have j: "os_path_join VOICE_STYLES_DIR n = VOICE_STYLES_DIR @ ''/'' @ n"
    using np by (simp add: os_path_join_def VOICE_STYLES_DIR_def suffix_def)
  have "takeWhile (\<lambda>c. c \<noteq> CHR ''/'') (rev n @ ''/'' @ rev VOICE_STYLES_DIR) = rev n"
    using assms by (simp add: takeWhile_append)
  then show ?thesis
    by (simp add: j os_path_basename_def)
qed

lemma glob_basenames:
  assumes "\<forall>n\<in>set ns. CHR ''/'' \<notin> set n"
  shows "map (os_path_basename \<circ> os_path_join VOICE_STYLES_DIR) (filter P ns) = filter P ns"
  using assms by (induction ns) (simp_all add: basename_join)

text \<open>
  C8, as amended. When the style directory does not exist, \<^verbatim>\<open>get_voice_styles\<close>
  returns the empty list. When it exists (its entries, as always, holding no
  separator), the result is, in the order of enumeration, the names of the entries
  that end with \<^verbatim>\<open>.json\<close> and do not start with a dot. In every case no name of
  the result holds a separator: it is a base name, without a path in front.
\<close>

theorem get_voice_styles_listing:
  "(\<not> path_exists env VOICE_STYLES_DIR \<longrightarrow> get_voice_styles env = []) \<and>
   (path_exists env VOICE_STYLES_DIR \<and>
    (\<forall>n\<in>set (listdir env VOICE_STYLES_DIR). CHR ''/'' \<notin> set n) \<longrightarrow>
    get_voice_styles env =
      filter (\<lambda>n. \<not> prefix ''.'' n \<and> suffix ''.json'' n) (listdir env VOICE_STYLES_DIR)) \<and>
   (\<forall>n\<in>set (get_voice_styles env). CHR ''/'' \<notin> set n)"
proof (intro conjI impI ballI)
  assume "\<not> path_exists env VOICE_STYLES_DIR"
  then show "get_voice_styles env = []"
    by (simp add: get_voice_styles_def)
next
  assume a: "path_exists env VOICE_STYLES_DIR \<and>
    (\<forall>n\<in>set (listdir env VOICE_STYLES_DIR). CHR ''/'' \<notin> set n)"
  then show "get_voice_styles env =
      filter (\<lambda>n. \<not> prefix ''.'' n \<and> suffix ''.json'' n) (listdir env VOICE_STYLES_DIR)"
    by (simp add: get_voice_styles_def glob_star_def ishidden_def glob_basenames)
next
  fix n
  assume "n \<in> set (get_voice_styles env)"
  then show "CHR ''/'' \<notin> set n"
    by (auto simp: get_voice_styles_def basename_no_slash split: if_splits)
qed

theorem get_voice_styles_listing_witness:
  "\<not> path_exists empty_env VOICE_STYLES_DIR \<and> get_voice_styles empty_env = [] \<and>
   path_exists example_env VOICE_STYLES_DIR \<and>
   listdir example_env VOICE_STYLES_DIR = [''a.json'', ''.hidden.json'', ''notes.txt''] \<and>
   list_all (\<lambda>n. CHR ''/'' \<notin> set n) (listdir example_env VOICE_STYLES_DIR) \<and>
   get_voice_styles example_env = [''a.json'']"
proof -
  have e: "\<not> path_exists empty_env VOICE_STYLES_DIR"
    by (simp add: empty_env_def)
  have p: "path_exists example_env VOICE_STYLES_DIR"
    by (simp add: example_env_def VOICE_STYLES_DIR_def)
  have l: "listdir example_env VOICE_STYLES_DIR = [''a.json'', ''.hidden.json'', ''notes.txt'']"
    by (simp add: example_env_def VOICE_STYLES_DIR_def)
  have q: "\<forall>n\<in>set (listdir example_env VOICE_STYLES_DIR). CHR ''/'' \<notin> set n"
    unfolding l by simp
  have q': "list_all (\<lambda>n. CHR ''/'' \<notin> set n) (listdir example_env VOICE_STYLES_DIR)"
    unfolding l by simp
  note t = get_voice_styles_listing [of empty_env, THEN conjunct1, rule_format, OF e]
  note u = get_voice_styles_listing [of example_env, THEN conjunct2, THEN conjunct1, rule_format,
      OF conjI [OF p q]]
  have r: "get_voice_styles example_env = [''a.json'']"
    unfolding u l by (simp add: suffix_def)
  from e t p l q' r show ?thesis
    by blast
qed

text \<open>
  C8, as stated, fails: the entry \<^verbatim>\<open>.hidden.json\<close> of the style directory exists
  and ends with the suffix \<^verbatim>\<open>.json\<close>, yet it is not in the listing, since the
  wildcard of \<^verbatim>\<open>glob\<close> does not match a leading dot.
\<close>

theorem hidden_style_counterexample:
  "path_exists example_env VOICE_STYLES_DIR \<and>
   ''.hidden.json'' \<in> set (listdir example_env VOICE_STYLES_DIR) \<and>
   path_exists example_env (os_path_join VOICE_STYLES_DIR ''.hidden.json'') \<and>
   suffix ''.json'' ''.hidden.json'' \<and>
   ''.hidden.json'' \<notin> set (get_voice_styles example_env)"
proof -
  have p: "path_exists example_env VOICE_STYLES_DIR"
    by (simp add: example_env_def VOICE_STYLES_DIR_def)
  have l: "''.hidden.json'' \<in> set (listdir example_env VOICE_STYLES_DIR)"
    by (simp add: example_env_def VOICE_STYLES_DIR_def)
  have x: "path_exists example_env (os_path_join VOICE_STYLES_DIR ''.hidden.json'')"
    by (simp add: example_env_def VOICE_STYLES_DIR_def os_path_join_def suffix_def)
  have s: "suffix ''.json'' ''.hidden.json''"
    by (simp add: suffix_def)
  have g: "''.hidden.json'' \<notin> set (get_voice_styles example_env)"
    unfolding example_listing by simp
  from p l x s g show ?thesis
    by blast
qed

end
